theory Spec2Isabelle
  imports Main
begin

section \<open>Data model (main.py, MODELS and SCHEMAS)\<close>

text \<open>
  Python \<open>int\<close> is \<open>int\<close>, \<open>str\<close> is \<open>string\<close>. A \<open>datetime\<close> is a point on the
  clock, read as an integer; a \<open>date\<close> is a calendar day.
\<close>

type_synonym datetime = int

datatype date = Date int int int

text \<open>
  The handlers raise \<open>HTTPException(status_code, detail)\<close>; the database session raises
  sqlalchemy's \<open>IntegrityError\<close> when an INSERT violates a declared constraint (primary key,
  \<open>unique=True\<close>, \<open>UniqueConstraint\<close>, \<open>ForeignKey\<close>); subscripting a dictionary with a
  missing key raises \<open>KeyError\<close>; passlib raises a \<open>ValueError\<close> on a secret or a hash it does
  not accept. Only \<open>login\<close> catches exceptions of the latter three kinds. The initialization
  script ends a failed run with \<open>sys.exit(1)\<close>.
\<close>

datatype error = HTTPException nat string | IntegrityError | KeyError | ValueError | SystemExit int

subsection \<open>Tables\<close>

text \<open>
  One record per mapped class, one field per column. The column \<open>is_active\<close> is a plain
  boolean: every handler that writes it takes the value from a pydantic \<open>bool\<close>. The column
  \<open>result\<close> of a booking is \<open>Text\<close>, so it is a string here; the schemas restrict what the
  handlers write into it to four literals.
\<close>

record User =
  id' :: int
  username :: string
  password :: string
  email :: string
  role :: string
  is_active :: bool
  created_at :: datetime

record LearnerProfile =
  user_id :: int
  test_booking_date :: "date option"
  learner_status :: string
  registered_on :: datetime
  license_code :: "string option"

record Station =
  station_id :: int
  name :: string
  num_grounds :: int

record InstructorProfile =
  user_id :: int
  inf_nr :: string
  station_id :: int

record LearnerTestBooking =
  booking_id :: int
  learner_id :: int
  instructor_id :: int
  station_id :: int
  test_date :: date
  result :: string
  booking_date :: datetime
  license_code :: "string option"
  registered_on :: datetime

record SecurityQuestion =
  id' :: int
  question :: string

record UserSecurityAnswer =
  id' :: int
  user_id :: int
  question_id :: int
  answer_hash :: string
  created_at :: datetime

text \<open>
  The database: one row list per \<open>__tablename__\<close>, and for each integer primary key that the
  database assigns, the last value its sequence has handed out.
\<close>

record db =
  users :: "User list"
  users_id_seq :: int
  learner_profiles :: "LearnerProfile list"
  instructor_profile :: "InstructorProfile list"
  station :: "Station list"
  station_station_id_seq :: int
  learner_test_bookings :: "LearnerTestBooking list"
  learner_test_bookings_booking_id_seq :: int
  security_questions :: "SecurityQuestion list"
  security_questions_id_seq :: int
  user_security_answers :: "UserSecurityAnswer list"
  user_security_answers_id_seq :: int

subsection \<open>Request and response schemas\<close>

datatype role_literal = Learner | Instructor | Admin | Super_admin

fun role_str :: "role_literal \<Rightarrow> string" where
  "role_str Learner = ''learner''"
| "role_str Instructor = ''instructor''"
| "role_str Admin = ''admin''"
| "role_str Super_admin = ''super_admin''"

record UserCreate =
  username :: string
  password :: string
  email :: string
  role :: role_literal
  is_active :: bool

record LoginRequest =
  username :: string
  password :: string
  role :: string

text \<open>The dictionary that \<open>login\<close> returns.\<close>

record login_response =
  userid :: int
  username :: string
  role :: string
  email :: string

section \<open>Identity and access\<close>



text \<open>
  An INSERT into \<open>users\<close> with the id already drawn from the sequence. The sequence keeps the
  value it handed out also when the row is rejected; the rejected row is not stored.
\<close>

definition insert_user :: "db \<Rightarrow> User \<Rightarrow> (error + User) \<times> db" where
  "insert_user d row =
     (let d1 = d\<lparr>users_id_seq := User.id' row\<rparr>
      in if \<exists>r \<in> set (users d). User.id' r = User.id' row
              \<or> User.username r = User.username row \<or> User.email r = User.email row
         then (Inl IntegrityError, d1)
         else (Inr row, d1\<lparr>users := users d @ [row]\<rparr>))"

text \<open>
  \<open>create_user\<close>. The passlib call \<open>get_password_hash\<close> and the clock behind the column default
  \<open>datetime.utcnow\<close> are parameters. The handler returns the refreshed row.
\<close>

definition create_user :: "(string \<Rightarrow> string) \<Rightarrow> datetime \<Rightarrow> db \<Rightarrow> UserCreate \<Rightarrow> (error + User) \<times> db" where
  "create_user get_password_hash utcnow d user =
     (if \<exists>r \<in> set (users d). User.username r = UserCreate.username user
            \<or> User.email r = UserCreate.email user
      then (Inl (HTTPException 400 ''Username or email already exists''), d)
      else
        let hashed_password = get_password_hash (UserCreate.password user);
            db_user = \<lparr>User.id' = users_id_seq d + 1,
                       User.username = UserCreate.username user,
                       User.password = hashed_password,
                       User.email = UserCreate.email user,
                       User.role = role_str (UserCreate.role user),
                       User.is_active = UserCreate.is_active user,
                       User.created_at = utcnow\<rparr>
        in insert_user d db_user)"

section \<open>Security-question recovery\<close>

record SecurityAnswerCreate =
  user_id :: int
  question_id :: int
  answer :: string

text \<open>The dictionary \<open>{"message": ...}\<close> that \<open>create_security_answer\<close> returns.\<close>

record message_response =
  message :: string



definition get_security_answers_by_user :: "db \<Rightarrow> int \<Rightarrow> error + UserSecurityAnswer list" where
  "get_security_answers_by_user d uid =
     (let answers = filter (\<lambda>a. UserSecurityAnswer.user_id a = uid) (user_security_answers d)
      in if answers = [] then Inl (HTTPException 404 ''Answers not found'') else Inr answers)"

subsection \<open>Catalog seeding at startup\<close>

definition default_qs :: "string list" where
  "default_qs =
     [''What is the name of your first pet?'',
      ''What was the model of your first car?'',
      ''In what city were you born?'',
      ''What is your mother's maiden name?'',
      ''What is the name of the street you grew up?'',
      ''What is the name of your primary school?'']"

text \<open>An INSERT into \<open>security_questions\<close> of a question with the next id of the sequence.\<close>

definition insert_question :: "db \<Rightarrow> string \<Rightarrow> (error + unit) \<times> db" where
  "insert_question d q =
     (let i = security_questions_id_seq d + 1;
          d1 = d\<lparr>security_questions_id_seq := i\<rparr>
      in if \<exists>r \<in> set (security_questions d). SecurityQuestion.id' r = i
         then (Inl IntegrityError, d1)
         else (Inr (), d1\<lparr>security_questions :=
                 security_questions d @ [\<lparr>SecurityQuestion.id' = i, question = q\<rparr>]\<rparr>))"

text \<open>
  The loop \<open>for q in default_qs\<close>. The session flushes a pending row before the next query,
  so each query sees the rows added so far and a rejected INSERT ends the loop.
\<close>

fun seed_questions :: "db \<Rightarrow> string list \<Rightarrow> (error + unit) \<times> db" where
  "seed_questions d [] = (Inr (), d)"
| "seed_questions d (q # qs) =
     (if \<exists>r \<in> set (security_questions d). question r = q
      then seed_questions d qs
      else case insert_question d q of
             (Inl e, d') \<Rightarrow> (Inl e, d')
           | (Inr _, d') \<Rightarrow> seed_questions d' qs)"

text \<open>
  \<open>insert_default_questions\<close>: the loop, then \<open>commit\<close>. When an exception leaves the function
  the transaction is never committed, and the stored rows are those from before the call.
\<close>

definition insert_default_questions :: "db \<Rightarrow> (error + unit) \<times> db" where
  "insert_default_questions d =
     (case seed_questions d default_qs of
        (Inl e, d') \<Rightarrow> (Inl e, d'\<lparr>security_questions := security_questions d\<rparr>)
      | (Inr _, d') \<Rightarrow> (Inr (), d'))"


subsection \<open>The initialization script (init_db.py)\<close>

definition default_stations :: "(string \<times> int) list" where
  "default_stations =
     [(''Main Station'', 5), (''North Station'', 3), (''South Station'', 4),
      (''East Station'', 2), (''West Station'', 3)]"

definition default_questions :: "string list" where
  "default_questions =
     [''What is the name of your first pet?'',
      ''What was the model of your first car?'',
      ''In what city were you born?'',
      ''What is your mother's maiden name?'',
      ''What is the name of the street you grew up?'',
      ''What is the name of your primary school?'']"

text \<open>An INSERT into \<open>station\<close> of a station with the next id of the sequence.\<close>

definition insert_station :: "db \<Rightarrow> string \<times> int \<Rightarrow> (error + unit) \<times> db" where
  "insert_station d station_data =
     (let i = station_station_id_seq d + 1;
          d1 = d\<lparr>station_station_id_seq := i\<rparr>
      in if \<exists>r \<in> set (station d). Station.station_id r = i
         then (Inl IntegrityError, d1)
         else (Inr (), d1\<lparr>station := station d @
                 [\<lparr>Station.station_id = i, name = fst station_data,
                   num_grounds = snd station_data\<rparr>]\<rparr>))"

text \<open>The loop \<open>for station_data in default_stations\<close>.\<close>

fun seed_stations :: "db \<Rightarrow> (string \<times> int) list \<Rightarrow> (error + unit) \<times> db" where
  "seed_stations d [] = (Inr (), d)"
| "seed_stations d (station_data # rest) =
     (if \<exists>r \<in> set (station d). Station.name r = fst station_data
      then seed_stations d rest
      else case insert_station d station_data of
             (Inl e, d') \<Rightarrow> (Inl e, d')
           | (Inr _, d') \<Rightarrow> seed_stations d' rest)"

text \<open>
  \<open>init_database\<close>: the station loop, the question loop (the same loop as in
  \<open>insert_default_questions\<close>, over the script's own list), then \<open>commit\<close>. An exception is
  answered by \<open>rollback\<close>, which restores the stored rows, and the script exits with status 1.
\<close>

definition init_database :: "db \<Rightarrow> (error + unit) \<times> db" where
  "init_database d =
     (case seed_stations d default_stations of
        (Inl e, d1) \<Rightarrow> (Inl (SystemExit 1), d1\<lparr>station := station d\<rparr>)
      | (Inr _, d1) \<Rightarrow>
          (case seed_questions d1 default_questions of
             (Inl e, d2) \<Rightarrow>
               (Inl (SystemExit 1),
                d2\<lparr>station := station d, security_questions := security_questions d\<rparr>)
           | (Inr _, d2) \<Rightarrow> (Inr (), d2)))"

section \<open>Booking lifecycle\<close>

datatype result_literal = Passed | Failed | Absent | Pending

fun result_str :: "result_literal \<Rightarrow> string" where
  "result_str Passed = ''passed''"
| "result_str Failed = ''failed''"
| "result_str Absent = ''absent''"
| "result_str Pending = ''pending''"

text \<open>
  A parsed \<open>LearnerTestBookingSchema\<close>: the attribute values (the schema's default where the
  request left a field out) and pydantic's record of the fields the request did supply.
  The four fields without a default are always supplied.
\<close>

record LearnerTestBookingSchema =
  booking_id :: "int option"
  learner_id :: int
  instructor_id :: int
  station_id :: int
  test_date :: date
  result :: "result_literal option"
  booking_date :: "datetime option"
  license_code :: "string option"
  registered_on :: "datetime option"
  fields_set :: "string set"

record ResultUpdateSchema =
  result :: result_literal

text \<open>The dictionary that \<open>update_test_result\<close> returns.\<close>

record result_update_response =
  message :: string
  booking_id :: int
  result :: string

text \<open>
  \<open>booking.dict(exclude_unset=True)\<close>, read at one key: the value of a supplied field,
  \<open>None\<close> for a field that was left out. The INSERT omits a column whose attribute is absent
  or \<open>None\<close>, and the column default (or NULL) takes its place.
\<close>

definition exclude_unset :: "LearnerTestBookingSchema \<Rightarrow> string \<Rightarrow> 'a option \<Rightarrow> 'a option" where
  "exclude_unset booking key v = (if key \<in> fields_set booking then v else None)"

definition insert_booking :: "db \<Rightarrow> LearnerTestBooking \<Rightarrow> (error + unit) \<times> db" where
  "insert_booking d row =
     (if (\<exists>r \<in> set (learner_test_bookings d).
            LearnerTestBooking.booking_id r = LearnerTestBooking.booking_id row)
       \<or> \<not> (\<exists>p \<in> set (learner_profiles d).
                LearnerProfile.user_id p = LearnerTestBooking.learner_id row)
       \<or> \<not> (\<exists>p \<in> set (instructor_profile d).
                InstructorProfile.user_id p = LearnerTestBooking.instructor_id row)
       \<or> \<not> (\<exists>s \<in> set (station d).
                Station.station_id s = LearnerTestBooking.station_id row)
      then (Inl IntegrityError, d)
      else (Inr (), d\<lparr>learner_test_bookings := learner_test_bookings d @ [row]\<rparr>))"

text \<open>
  \<open>create_test_booking\<close>. The sequence is advanced only when the request gives no booking id.
  Both \<open>datetime.utcnow\<close> column defaults read the clock parameter. The handler returns the
  schema object it was given.
\<close>

definition create_test_booking ::
  "datetime \<Rightarrow> db \<Rightarrow> LearnerTestBookingSchema \<Rightarrow> (error + LearnerTestBookingSchema) \<times> db" where
  "create_test_booking utcnow d booking =
     (let kw_booking_id = exclude_unset booking ''booking_id'' (LearnerTestBookingSchema.booking_id booking);
          kw_result = exclude_unset booking ''result'' (LearnerTestBookingSchema.result booking);
          kw_booking_date = exclude_unset booking ''booking_date'' (LearnerTestBookingSchema.booking_date booking);
          kw_license_code = exclude_unset booking ''license_code'' (LearnerTestBookingSchema.license_code booking);
          kw_registered_on = exclude_unset booking ''registered_on'' (LearnerTestBookingSchema.registered_on booking);
          d1 = (case kw_booking_id of
                  None \<Rightarrow> d\<lparr>learner_test_bookings_booking_id_seq :=
                               learner_test_bookings_booking_id_seq d + 1\<rparr>
                | Some _ \<Rightarrow> d);
          row = \<lparr>LearnerTestBooking.booking_id =
                   (case kw_booking_id of
                      None \<Rightarrow> learner_test_bookings_booking_id_seq d + 1 | Some i \<Rightarrow> i),
                 LearnerTestBooking.learner_id = LearnerTestBookingSchema.learner_id booking,
                 LearnerTestBooking.instructor_id = LearnerTestBookingSchema.instructor_id booking,
                 LearnerTestBooking.station_id = LearnerTestBookingSchema.station_id booking,
                 LearnerTestBooking.test_date = LearnerTestBookingSchema.test_date booking,
                 LearnerTestBooking.result =
                   (case kw_result of None \<Rightarrow> ''pending'' | Some r \<Rightarrow> result_str r),
                 LearnerTestBooking.booking_date =
                   (case kw_booking_date of None \<Rightarrow> utcnow | Some t \<Rightarrow> t),
                 LearnerTestBooking.license_code = kw_license_code,
                 LearnerTestBooking.registered_on =
                   (case kw_registered_on of None \<Rightarrow> utcnow | Some t \<Rightarrow> t)\<rparr>
      in case insert_booking d1 row of
           (Inl e, d') \<Rightarrow> (Inl e, d')
         | (Inr _, d') \<Rightarrow> (Inr booking, d'))"

text \<open>Assigning to one attribute of the first row that a filter selects.\<close>

fun update_first :: "('a \<Rightarrow> bool) \<Rightarrow> ('a \<Rightarrow> 'a) \<Rightarrow> 'a list \<Rightarrow> 'a list" where
  "update_first P f [] = []"
| "update_first P f (x # xs) = (if P x then f x # xs else x # update_first P f xs)"

definition update_test_result ::
  "db \<Rightarrow> int \<Rightarrow> ResultUpdateSchema \<Rightarrow> (error + result_update_response) \<times> db" where
  "update_test_result d bid upd =
     (case find (\<lambda>b. LearnerTestBooking.booking_id b = bid) (learner_test_bookings d) of
        None \<Rightarrow> (Inl (HTTPException 404 ''Booking not found''), d)
      | Some booking \<Rightarrow>
          (Inr \<lparr>message = ''Test result updated to '' @ result_str (ResultUpdateSchema.result upd),
                 booking_id = bid,
                 result = result_str (ResultUpdateSchema.result upd)\<rparr>,
           d\<lparr>learner_test_bookings :=
                update_first (\<lambda>b. LearnerTestBooking.booking_id b = bid)
                  (\<lambda>b. b\<lparr>LearnerTestBooking.result := result_str (ResultUpdateSchema.result upd)\<rparr>)
                  (learner_test_bookings d)\<rparr>))"

definition get_test_booking :: "db \<Rightarrow> int \<Rightarrow> error + LearnerTestBooking" where
  "get_test_booking d bid =
     (case find (\<lambda>b. LearnerTestBooking.booking_id b = bid) (learner_test_bookings d) of
        None \<Rightarrow> Inl (HTTPException 404 ''Booking not found'')
      | Some booking \<Rightarrow> Inr booking)"

definition get_bookings_by_learner :: "db \<Rightarrow> int \<Rightarrow> error + LearnerTestBooking list" where
  "get_bookings_by_learner d lid =
     (let bookings = filter (\<lambda>b. LearnerTestBooking.learner_id b = lid) (learner_test_bookings d)
      in if bookings = [] then Inl (HTTPException 404 ''No bookings found for this learner'')
         else Inr bookings)"

text \<open>
  The date-scoped queries take the path parameter as the day it denotes; the database compares
  it with the \<open>Date\<close> column.
\<close>

definition get_pending_learners :: "db \<Rightarrow> date \<Rightarrow> error + LearnerTestBooking list" where
  "get_pending_learners d day =
     (let pending_bookings =
            filter (\<lambda>b. LearnerTestBooking.test_date b = day \<and> LearnerTestBooking.result b = ''pending'')
              (learner_test_bookings d)
      in Inr pending_bookings)"

definition get_completed_learners :: "db \<Rightarrow> date \<Rightarrow> error + LearnerTestBooking list" where
  "get_completed_learners d day =
     (let completed_bookings =
            filter (\<lambda>b. LearnerTestBooking.test_date b = day \<and> LearnerTestBooking.result b \<noteq> ''pending'')
              (learner_test_bookings d)
      in Inr completed_bookings)"

subsection \<open>Results by date\<close>

text \<open>The dictionary appended for one booking, and the dictionary the handler returns.\<close>

record booking_dict =
  booking_id :: int
  learner_id :: int
  instructor_id :: int
  result :: string
  license_code :: "string option"
  test_date :: date
  booking_date :: datetime

record results_by_date =
  date :: date
  total_bookings :: nat
  results :: "string \<rightharpoonup> booking_dict list"
  summary :: "string \<rightharpoonup> nat"





section \<open>Example database\<close>

text \<open>
  A small database and stand-ins for the two passlib calls, on which the theorems below are
  instantiated. Like passlib's bcrypt handler, the stand-in for \<open>verify_password\<close> raises on a
  password that contains a NUL byte.
\<close>

definition ex_hash :: "string \<Rightarrow> string" where
  "ex_hash secret = ''$2b$'' @ secret"

definition ex_verify :: "string \<Rightarrow> string \<Rightarrow> error + bool" where
  "ex_verify plain hashed =
     (if CHR 0x00 \<in> set plain then Inl ValueError else Inr (hashed = ex_hash plain))"

definition ex_alice :: User where
  "ex_alice = \<lparr>User.id' = 1, User.username = ''alice'', User.password = ''$2b$secret'',
               User.email = ''alice@example.com'', User.role = ''instructor'',
               User.is_active = True, User.created_at = 0\<rparr>"

definition ex_bob :: User where
  "ex_bob = \<lparr>User.id' = 2, User.username = ''bob'', User.password = ''$2b$hunter2'',
             User.email = ''bob@example.com'', User.role = ''learner'',
             User.is_active = True, User.created_at = 0\<rparr>"

definition ex_carol :: User where
  "ex_carol = \<lparr>User.id' = 3, User.username = ''carol'', User.password = ''$2b$pw'',
               User.email = ''carol@example.com'', User.role = ''instructor'',
               User.is_active = False, User.created_at = 0\<rparr>"

definition ex_db :: db where
  "ex_db = \<lparr>users = [ex_alice, ex_bob, ex_carol], users_id_seq = 3,
            learner_profiles = [\<lparr>LearnerProfile.user_id = 2, test_booking_date = None,
               learner_status = ''pending'', LearnerProfile.registered_on = 0,
               LearnerProfile.license_code = None\<rparr>],
            instructor_profile = [\<lparr>InstructorProfile.user_id = 1, inf_nr = ''INF-1'',
               InstructorProfile.station_id = 1\<rparr>],
            station = [\<lparr>Station.station_id = 1, name = ''Main Station'', num_grounds = 5\<rparr>],
            station_station_id_seq = 1,
            learner_test_bookings = [], learner_test_bookings_booking_id_seq = 0,
            security_questions =
              [\<lparr>SecurityQuestion.id' = 1, question = ''What is the name of your first pet?''\<rparr>,
               \<lparr>SecurityQuestion.id' = 2, question = ''In what city were you born?''\<rparr>],
            security_questions_id_seq = 2,
            user_security_answers = [], user_security_answers_id_seq = 0\<rparr>"

definition ex_dave_req :: UserCreate where
  "ex_dave_req = \<lparr>UserCreate.username = ''dave'', UserCreate.password = ''pw4'',
                   UserCreate.email = ''dave@example.com'', UserCreate.role = Admin,
                   UserCreate.is_active = True\<rparr>"

definition ex_dave :: User where
  "ex_dave = \<lparr>User.id' = 4, User.username = ''dave'', User.password = ''$2b$pw4'',
              User.email = ''dave@example.com'', User.role = ''admin'',
              User.is_active = True, User.created_at = 7\<rparr>"


definition ex_answer :: UserSecurityAnswer where
  "ex_answer = \<lparr>UserSecurityAnswer.id' = 1, UserSecurityAnswer.user_id = 1,
                 UserSecurityAnswer.question_id = 1, answer_hash = ''$2b$Rex'',
                 UserSecurityAnswer.created_at = 11\<rparr>"

definition ex_db_answered :: db where
  "ex_db_answered = ex_db\<lparr>user_security_answers := [ex_answer], user_security_answers_id_seq := 1\<rparr>"

definition ex_booking :: "int \<Rightarrow> date \<Rightarrow> string \<Rightarrow> LearnerTestBooking" where
  "ex_booking i day r =
     \<lparr>LearnerTestBooking.booking_id = i, LearnerTestBooking.learner_id = 2,
      LearnerTestBooking.instructor_id = 1, LearnerTestBooking.station_id = 1,
      LearnerTestBooking.test_date = day, LearnerTestBooking.result = r,
      LearnerTestBooking.booking_date = 20, LearnerTestBooking.license_code = None,
      LearnerTestBooking.registered_on = 20\<rparr>"

definition ex_db_booked :: db where
  "ex_db_booked = ex_db\<lparr>learner_test_bookings :=
       [ex_booking 1 (Date 2024 5 1) ''pending'', ex_booking 2 (Date 2024 5 1) ''passed'',
        ex_booking 3 (Date 2024 5 1) ''pending'', ex_booking 4 (Date 2024 5 1) ''absent'',
        ex_booking 5 (Date 2024 5 2) ''failed''],
      learner_test_bookings_booking_id_seq := 5\<rparr>"

definition ex_booking_req :: LearnerTestBookingSchema where
  "ex_booking_req =
     \<lparr>LearnerTestBookingSchema.booking_id = None, LearnerTestBookingSchema.learner_id = 2,
      LearnerTestBookingSchema.instructor_id = 1, LearnerTestBookingSchema.station_id = 1,
      LearnerTestBookingSchema.test_date = Date 2024 5 1,
      LearnerTestBookingSchema.result = Some Pending,
      LearnerTestBookingSchema.booking_date = Some 3,
      LearnerTestBookingSchema.license_code = None,
      LearnerTestBookingSchema.registered_on = Some 3,
      fields_set = {''learner_id'', ''instructor_id'', ''station_id'', ''test_date''}\<rparr>"

definition ex_db_seeded :: db where
  "ex_db_seeded = ex_db\<lparr>security_questions_id_seq := 6,
      security_questions := security_questions ex_db @
        [\<lparr>SecurityQuestion.id' = 3, question = ''What was the model of your first car?''\<rparr>,
         \<lparr>SecurityQuestion.id' = 4, question = ''What is your mother's maiden name?''\<rparr>,
         \<lparr>SecurityQuestion.id' = 5, question = ''What is the name of the street you grew up?''\<rparr>,
         \<lparr>SecurityQuestion.id' = 6, question = ''What is the name of your primary school?''\<rparr>]\<rparr>"

definition ex_db_initialized :: db where
  "ex_db_initialized = ex_db_seeded\<lparr>station_station_id_seq := 5,
      station := station ex_db @
        [\<lparr>Station.station_id = 2, name = ''North Station'', num_grounds = 3\<rparr>,
         \<lparr>Station.station_id = 3, name = ''South Station'', num_grounds = 4\<rparr>,
         \<lparr>Station.station_id = 4, name = ''East Station'', num_grounds = 2\<rparr>,
         \<lparr>Station.station_id = 5, name = ''West Station'', num_grounds = 3\<rparr>]\<rparr>"

section \<open>Verified properties\<close>

lemmas ex_users_defs = ex_db_def ex_alice_def ex_bob_def ex_carol_def ex_verify_def ex_hash_def

subsection \<open>Lookups\<close>



subsection \<open>Login\<close>




subsection \<open>Creating users\<close>

text \<open>
  C2. A \<open>create_user\<close> call whose username or email is already carried by a stored user fails
  with 400 "Username or email already exists" and leaves the database as it was. A successful
  call appends exactly one row, whose password column holds the output of the hash function on
  the supplied password (so never the plaintext, the hash function not returning its input),
  and after it every call that reuses that username or that email fails in the same way and
  creates no user.
\<close>

theorem create_user_conflict_and_hash:
  "((\<exists>r \<in> set (users d). User.username r = UserCreate.username user
        \<or> User.email r = UserCreate.email user) \<longrightarrow>
      create_user H t d user = (Inl (HTTPException 400 ''Username or email already exists''), d))
   \<and> (create_user H t d user = (Inr u, d') \<longrightarrow>
        users d' = users d @ [u]
      \<and> User.username u = UserCreate.username user
      \<and> User.email u = UserCreate.email user
      \<and> User.password u = H (UserCreate.password user)
      \<and> (H (UserCreate.password user) \<noteq> UserCreate.password user \<longrightarrow>
           User.password u \<noteq> UserCreate.password user)
      \<and> (\<forall>H2 t2 user2.
            UserCreate.username user2 = UserCreate.username user
              \<or> UserCreate.email user2 = UserCreate.email user \<longrightarrow>
            create_user H2 t2 d' user2
              = (Inl (HTTPException 400 ''Username or email already exists''), d')))"
proof (intro conjI impI)
  assume "\<exists>r \<in> set (users d). User.username r = UserCreate.username user
        \<or> User.email r = UserCreate.email user"
  then show "create_user H t d user = (Inl (HTTPException 400 ''Username or email already exists''), d)"
    by (simp add: create_user_def)
next
  assume ok: "create_user H t d user = (Inr u, d')"
  then have u: "u = \<lparr>User.id' = users_id_seq d + 1,
                       User.username = UserCreate.username user,
                       User.password = H (UserCreate.password user),
                       User.email = UserCreate.email user,
                       User.role = role_str (UserCreate.role user),
                       User.is_active = UserCreate.is_active user,
                       User.created_at = t\<rparr>"
    and d': "users d' = users d @ [u]"
    by (auto simp: create_user_def insert_user_def Let_def split: if_splits)
  show "users d' = users d @ [u]" by (rule d')
  show "User.username u = UserCreate.username user" by (simp add: u)
  show "User.email u = UserCreate.email user" by (simp add: u)
  show "User.password u = H (UserCreate.password user)" by (simp add: u)
  show "User.password u \<noteq> UserCreate.password user"
    if "H (UserCreate.password user) \<noteq> UserCreate.password user"
    using that by (simp add: u)
  show "\<forall>H2 t2 user2.
            UserCreate.username user2 = UserCreate.username user
              \<or> UserCreate.email user2 = UserCreate.email user \<longrightarrow>
            create_user H2 t2 d' user2
              = (Inl (HTTPException 400 ''Username or email already exists''), d')"
  proof (intro allI impI)
    fix H2 :: "string \<Rightarrow> string" and t2 :: datetime and user2 :: UserCreate
    assume "UserCreate.username user2 = UserCreate.username user
              \<or> UserCreate.email user2 = UserCreate.email user"
    then have "\<exists>r \<in> set (users d'). User.username r = UserCreate.username user2
        \<or> User.email r = UserCreate.email user2"
      by (auto simp: d' u)
    then show "create_user H2 t2 d' user2
              = (Inl (HTTPException 400 ''Username or email already exists''), d')"
      by (simp add: create_user_def)
  qed
qed

theorem create_user_conflict_and_hash_witness:
  "create_user ex_hash 7 ex_db ex_dave_req
     = (Inr ex_dave, ex_db\<lparr>users := users ex_db @ [ex_dave], users_id_seq := 4\<rparr>)
   \<and> User.password ex_dave = ex_hash ''pw4'' \<and> User.password ex_dave \<noteq> ''pw4''
   \<and> create_user ex_hash 9 (ex_db\<lparr>users := users ex_db @ [ex_dave], users_id_seq := 4\<rparr>)
        (ex_dave_req\<lparr>UserCreate.email := ''other@example.com''\<rparr>)
     = (Inl (HTTPException 400 ''Username or email already exists''),
        ex_db\<lparr>users := users ex_db @ [ex_dave], users_id_seq := 4\<rparr>)
   \<and> create_user ex_hash 9 ex_db (ex_dave_req\<lparr>UserCreate.email := ''alice@example.com''\<rparr>)
     = (Inl (HTTPException 400 ''Username or email already exists''), ex_db)"
proof -
  have ok: "create_user ex_hash 7 ex_db ex_dave_req
     = (Inr ex_dave, ex_db\<lparr>users := users ex_db @ [ex_dave], users_id_seq := 4\<rparr>)"
    by (simp add: create_user_def insert_user_def Let_def ex_users_defs ex_dave_req_def ex_dave_def)
  have ex: "\<exists>r \<in> set (users ex_db).
       User.username r = UserCreate.username (ex_dave_req\<lparr>UserCreate.email := ''alice@example.com''\<rparr>)
     \<or> User.email r = UserCreate.email (ex_dave_req\<lparr>UserCreate.email := ''alice@example.com''\<rparr>)"
    by (simp add: ex_users_defs ex_dave_req_def)
  show ?thesis
    using ok
      create_user_conflict_and_hash [of ex_db ex_dave_req ex_hash 7 ex_dave
        "ex_db\<lparr>users := users ex_db @ [ex_dave], users_id_seq := 4\<rparr>"]
      create_user_conflict_and_hash [of ex_db "ex_dave_req\<lparr>UserCreate.email := ''alice@example.com''\<rparr>"
        ex_hash 9 ex_dave ex_db] ex
    by (simp add: ex_dave_def ex_hash_def ex_dave_req_def)
qed

subsection \<open>Recording security answers\<close>




subsection \<open>Updating a booking's result\<close>

lemma update_first_absent: "find P xs = None \<Longrightarrow> update_first P f xs = xs"
  by (induction xs) (auto split: if_splits)

lemma find_update_first:
  "(\<And>x. P (f x) = P x) \<Longrightarrow> find P (update_first P f xs) = map_option f (find P xs)"
  by (induction xs) auto

lemma update_first_twice:
  "(\<And>x. P (f x) = P x) \<Longrightarrow> update_first P g (update_first P f xs) = update_first P (\<lambda>x. g (f x)) xs"
  by (induction xs) auto

lemma find_Some_ex: "(\<exists>b \<in> set xs. P b) \<Longrightarrow> \<exists>b. find P xs = Some b"
  by (induction xs) auto

text \<open>
  C4. \<open>update_test_result\<close> on a booking id that no row carries fails with 404 "Booking not
  found" and leaves the database as it was. On an existing booking id two calls in a row both
  succeed, the booking read back afterwards carries the result of the second call, the database
  is the one that the second call alone would have produced (the first result is overwritten),
  and when both calls give the same result the second changes nothing.
\<close>

theorem update_test_result_last_write_wins:
  "((\<forall>b \<in> set (learner_test_bookings d). LearnerTestBooking.booking_id b \<noteq> bid) \<longrightarrow>
      update_test_result d bid upd = (Inl (HTTPException 404 ''Booking not found''), d))
   \<and> ((\<exists>b \<in> set (learner_test_bookings d). LearnerTestBooking.booking_id b = bid) \<longrightarrow>
       (\<exists>m1 d1 m2 d2 b2.
           update_test_result d bid upd1 = (Inr m1, d1)
         \<and> update_test_result d1 bid upd2 = (Inr m2, d2)
         \<and> get_test_booking d2 bid = Inr b2
         \<and> LearnerTestBooking.result b2 = result_str (ResultUpdateSchema.result upd2)
         \<and> d2 = snd (update_test_result d bid upd2)
         \<and> (ResultUpdateSchema.result upd1 = ResultUpdateSchema.result upd2 \<longrightarrow> d2 = d1)))"
proof (intro conjI impI)
  assume "\<forall>b \<in> set (learner_test_bookings d). LearnerTestBooking.booking_id b \<noteq> bid"
  then have "find (\<lambda>b. LearnerTestBooking.booking_id b = bid) (learner_test_bookings d) = None"
    by (simp add: find_None_iff)
  then show "update_test_result d bid upd = (Inl (HTTPException 404 ''Booking not found''), d)"
    by (simp add: update_test_result_def)
next
  let ?P = "\<lambda>b. LearnerTestBooking.booking_id b = bid"
  let ?set = "\<lambda>upd b. b\<lparr>LearnerTestBooking.result := result_str (ResultUpdateSchema.result upd)\<rparr>"
  assume "\<exists>b \<in> set (learner_test_bookings d). LearnerTestBooking.booking_id b = bid"
  then obtain b where b: "find ?P (learner_test_bookings d) = Some b"
    using find_Some_ex[of "learner_test_bookings d" ?P] by blast
  define d1 where "d1 = d\<lparr>learner_test_bookings := update_first ?P (?set upd1) (learner_test_bookings d)\<rparr>"
  define d2 where "d2 = d1\<lparr>learner_test_bookings := update_first ?P (?set upd2) (learner_test_bookings d1)\<rparr>"
  have keep: "\<And>u x. ?P (?set u x) = ?P x" by simp
  have f1: "find ?P (learner_test_bookings d1) = Some (?set upd1 b)"
    using find_update_first[of ?P "?set upd1" "learner_test_bookings d", OF keep] b
    by (simp add: d1_def)
  have f2: "find ?P (learner_test_bookings d2) = Some (?set upd2 (?set upd1 b))"
    using find_update_first[of ?P "?set upd2" "learner_test_bookings d1", OF keep] f1
    by (simp add: d2_def)
  have u1: "\<exists>m1. update_test_result d bid upd1 = (Inr m1, d1)"
    using b by (simp add: update_test_result_def d1_def)
  have u2: "\<exists>m2. update_test_result d1 bid upd2 = (Inr m2, d2)"
    using f1 by (simp add: update_test_result_def d2_def)
  have twice: "learner_test_bookings d2 = update_first ?P (?set upd2) (learner_test_bookings d)"
    using update_first_twice[of ?P "?set upd1" "?set upd2" "learner_test_bookings d", OF keep]
    by (simp add: d2_def d1_def)
  have last: "d2 = snd (update_test_result d bid upd2)"
    using b twice by (simp add: update_test_result_def d2_def d1_def)
  have idem: "d2 = d1" if "ResultUpdateSchema.result upd1 = ResultUpdateSchema.result upd2"
    using twice that by (simp add: d2_def d1_def)
  have g: "get_test_booking d2 bid = Inr (?set upd2 (?set upd1 b))"
    using f2 by (simp add: get_test_booking_def)
  show "\<exists>m1 d1 m2 d2 b2.
           update_test_result d bid upd1 = (Inr m1, d1)
         \<and> update_test_result d1 bid upd2 = (Inr m2, d2)
         \<and> get_test_booking d2 bid = Inr b2
         \<and> LearnerTestBooking.result b2 = result_str (ResultUpdateSchema.result upd2)
         \<and> d2 = snd (update_test_result d bid upd2)
         \<and> (ResultUpdateSchema.result upd1 = ResultUpdateSchema.result upd2 \<longrightarrow> d2 = d1)"
    using u1 u2 g last idem by auto
qed

theorem update_test_result_last_write_wins_witness:
  "update_test_result ex_db_booked 99 \<lparr>ResultUpdateSchema.result = Passed\<rparr>
     = (Inl (HTTPException 404 ''Booking not found''), ex_db_booked)
   \<and> (\<exists>m1 d1 m2 d2 b2.
           update_test_result ex_db_booked 1 \<lparr>ResultUpdateSchema.result = Failed\<rparr> = (Inr m1, d1)
         \<and> update_test_result d1 1 \<lparr>ResultUpdateSchema.result = Passed\<rparr> = (Inr m2, d2)
         \<and> get_test_booking d2 1 = Inr b2
         \<and> LearnerTestBooking.result b2 = ''passed'')"
proof -
  have absent: "\<forall>b \<in> set (learner_test_bookings ex_db_booked). LearnerTestBooking.booking_id b \<noteq> 99"
    and present: "\<exists>b \<in> set (learner_test_bookings ex_db_booked). LearnerTestBooking.booking_id b = 1"
    by (simp_all add: ex_db_booked_def ex_booking_def)
  show ?thesis
    using absent present
      update_test_result_last_write_wins [of ex_db_booked 99 "\<lparr>ResultUpdateSchema.result = Passed\<rparr>"
        "\<lparr>ResultUpdateSchema.result = Failed\<rparr>" "\<lparr>ResultUpdateSchema.result = Passed\<rparr>"]
      update_test_result_last_write_wins [of ex_db_booked 1 "\<lparr>ResultUpdateSchema.result = Passed\<rparr>"
        "\<lparr>ResultUpdateSchema.result = Failed\<rparr>" "\<lparr>ResultUpdateSchema.result = Passed\<rparr>"]
    by simp blast
qed

subsection \<open>Creating a booking and the date-scoped queries\<close>

lemma create_test_booking_stored:
  assumes "create_test_booking t d booking = (Inr ret, d1)"
  shows "\<exists>row. learner_test_bookings d1 = learner_test_bookings d @ [row]
           \<and> (\<forall>r \<in> set (learner_test_bookings d).
                 LearnerTestBooking.booking_id r \<noteq> LearnerTestBooking.booking_id row)
           \<and> LearnerTestBooking.booking_id row =
               (case exclude_unset booking ''booking_id'' (LearnerTestBookingSchema.booking_id booking) of
                  None \<Rightarrow> learner_test_bookings_booking_id_seq d + 1 | Some i \<Rightarrow> i)
           \<and> LearnerTestBooking.result row =
               (case exclude_unset booking ''result'' (LearnerTestBookingSchema.result booking) of
                  None \<Rightarrow> ''pending'' | Some r \<Rightarrow> result_str r)
           \<and> LearnerTestBooking.test_date row = LearnerTestBookingSchema.test_date booking
           \<and> ret = booking"
proof -
  let ?kw = "exclude_unset booking ''booking_id'' (LearnerTestBookingSchema.booking_id booking)"
  show ?thesis
  proof (cases ?kw)
    case None
    with assms show ?thesis
      by (auto simp: create_test_booking_def insert_booking_def Let_def split: if_splits)
  next
    case (Some i)
    with assms show ?thesis
      by (auto simp: create_test_booking_def insert_booking_def Let_def split: if_splits)
  qed
qed

lemma update_first_last:
  "(\<forall>x \<in> set xs. \<not> P x) \<Longrightarrow> P y \<Longrightarrow> update_first P f (xs @ [y]) = xs @ [f y]"
  by (induction xs) auto

lemma find_last:
  "(\<forall>x \<in> set xs. \<not> P x) \<Longrightarrow> P y \<Longrightarrow> find P (xs @ [y]) = Some y"
  by (induction xs) auto

text \<open>
  C5. A booking created with the result field left out is stored with result \<open>pending\<close>; the
  pending query for its test date returns it and the completed query for that date returns no
  booking with its id. After \<open>update_test_result\<close> sets its result to \<open>passed\<close> (which succeeds),
  the pending query for that date returns no booking with its id and the completed query
  returns it, now with result \<open>passed\<close>.
\<close>

theorem pending_booking_moves_to_completed:
  assumes "''result'' \<notin> fields_set booking"
    and "create_test_booking t d booking = (Inr ret, d1)"
  shows "\<exists>row ps cs m d2 ps2 cs2.
            learner_test_bookings d1 = learner_test_bookings d @ [row]
          \<and> LearnerTestBooking.result row = ''pending''
          \<and> LearnerTestBooking.test_date row = LearnerTestBookingSchema.test_date booking
          \<and> get_pending_learners d1 (LearnerTestBookingSchema.test_date booking) = Inr ps
          \<and> row \<in> set ps
          \<and> get_completed_learners d1 (LearnerTestBookingSchema.test_date booking) = Inr cs
          \<and> (\<forall>b \<in> set cs. LearnerTestBooking.booking_id b \<noteq> LearnerTestBooking.booking_id row)
          \<and> update_test_result d1 (LearnerTestBooking.booking_id row)
               \<lparr>ResultUpdateSchema.result = Passed\<rparr> = (Inr m, d2)
          \<and> get_pending_learners d2 (LearnerTestBookingSchema.test_date booking) = Inr ps2
          \<and> (\<forall>b \<in> set ps2. LearnerTestBooking.booking_id b \<noteq> LearnerTestBooking.booking_id row)
          \<and> get_completed_learners d2 (LearnerTestBookingSchema.test_date booking) = Inr cs2
          \<and> row\<lparr>LearnerTestBooking.result := ''passed''\<rparr> \<in> set cs2"
proof -
  from create_test_booking_stored[OF assms(2)] obtain row where
    rows: "learner_test_bookings d1 = learner_test_bookings d @ [row]"
    and fresh: "\<forall>r \<in> set (learner_test_bookings d).
                 LearnerTestBooking.booking_id r \<noteq> LearnerTestBooking.booking_id row"
    and res: "LearnerTestBooking.result row =
               (case exclude_unset booking ''result'' (LearnerTestBookingSchema.result booking) of
                  None \<Rightarrow> ''pending'' | Some r \<Rightarrow> result_str r)"
    and day: "LearnerTestBooking.test_date row = LearnerTestBookingSchema.test_date booking"
    by blast
  let ?P = "\<lambda>b. LearnerTestBooking.booking_id b = LearnerTestBooking.booking_id row"
  let ?row' = "row\<lparr>LearnerTestBooking.result := ''passed''\<rparr>"
  have pend: "LearnerTestBooking.result row = ''pending''"
    using res assms(1) by (simp add: exclude_unset_def)
  have found: "find ?P (learner_test_bookings d1) = Some row"
    using find_last[of "learner_test_bookings d" ?P row] fresh by (simp add: rows)
  have upd: "update_first ?P (\<lambda>b. b\<lparr>LearnerTestBooking.result := ''passed''\<rparr>) (learner_test_bookings d1)
               = learner_test_bookings d @ [?row']"
    using update_first_last[of "learner_test_bookings d" ?P row] fresh by (simp add: rows)
  define d2 where "d2 = d1\<lparr>learner_test_bookings := learner_test_bookings d @ [?row']\<rparr>"
  have u: "\<exists>m. update_test_result d1 (LearnerTestBooking.booking_id row)
               \<lparr>ResultUpdateSchema.result = Passed\<rparr> = (Inr m, d2)"
    using found upd by (simp add: update_test_result_def d2_def)
  have p1: "row \<in> set (filter (\<lambda>b. LearnerTestBooking.test_date b = LearnerTestBookingSchema.test_date booking
                 \<and> LearnerTestBooking.result b = ''pending'') (learner_test_bookings d1))"
    using pend day by (simp add: rows)
  have c1: "\<forall>b \<in> set (filter (\<lambda>b. LearnerTestBooking.test_date b = LearnerTestBookingSchema.test_date booking
                 \<and> LearnerTestBooking.result b \<noteq> ''pending'') (learner_test_bookings d1)).
              LearnerTestBooking.booking_id b \<noteq> LearnerTestBooking.booking_id row"
    using pend fresh by (auto simp: rows)
  have p2: "\<forall>b \<in> set (filter (\<lambda>b. LearnerTestBooking.test_date b = LearnerTestBookingSchema.test_date booking
                 \<and> LearnerTestBooking.result b = ''pending'') (learner_test_bookings d2)).
              LearnerTestBooking.booking_id b \<noteq> LearnerTestBooking.booking_id row"
    using fresh by (auto simp: d2_def)
  have c2: "?row' \<in> set (filter (\<lambda>b. LearnerTestBooking.test_date b = LearnerTestBookingSchema.test_date booking
                 \<and> LearnerTestBooking.result b \<noteq> ''pending'') (learner_test_bookings d2))"
    using day by (simp add: d2_def)
  from u obtain m where m: "update_test_result d1 (LearnerTestBooking.booking_id row)
               \<lparr>ResultUpdateSchema.result = Passed\<rparr> = (Inr m, d2)" by blast
  show ?thesis
    apply (rule exI[of _ row])
    apply (rule exI[of _ "filter (\<lambda>b. LearnerTestBooking.test_date b = LearnerTestBookingSchema.test_date booking
                 \<and> LearnerTestBooking.result b = ''pending'') (learner_test_bookings d1)"])
    apply (rule exI[of _ "filter (\<lambda>b. LearnerTestBooking.test_date b = LearnerTestBookingSchema.test_date booking
                 \<and> LearnerTestBooking.result b \<noteq> ''pending'') (learner_test_bookings d1)"])
    apply (rule exI[of _ m])
    apply (rule exI[of _ d2])
    apply (rule exI[of _ "filter (\<lambda>b. LearnerTestBooking.test_date b = LearnerTestBookingSchema.test_date booking
                 \<and> LearnerTestBooking.result b = ''pending'') (learner_test_bookings d2)"])
    apply (rule exI[of _ "filter (\<lambda>b. LearnerTestBooking.test_date b = LearnerTestBookingSchema.test_date booking
                 \<and> LearnerTestBooking.result b \<noteq> ''pending'') (learner_test_bookings d2)"])
    using rows pend day p1 c1 m p2 c2
    by (simp only: get_pending_learners_def get_completed_learners_def Let_def)
qed


theorem pending_booking_moves_to_completed_witness:
  "''result'' \<notin> fields_set ex_booking_req
   \<and> create_test_booking 30 ex_db_booked ex_booking_req
       = (Inr ex_booking_req,
          ex_db_booked\<lparr>learner_test_bookings_booking_id_seq := 6,
            learner_test_bookings := learner_test_bookings ex_db_booked
              @ [(ex_booking 6 (Date 2024 5 1) ''pending'')
                   \<lparr>LearnerTestBooking.booking_date := 30, LearnerTestBooking.registered_on := 30\<rparr>]\<rparr>)
   \<and> (\<exists>row ps cs m d2 ps2 cs2.
          LearnerTestBooking.result row = ''pending''
        \<and> LearnerTestBooking.test_date row = Date 2024 5 1
        \<and> get_pending_learners
             (ex_db_booked\<lparr>learner_test_bookings_booking_id_seq := 6,
                learner_test_bookings := learner_test_bookings ex_db_booked
                  @ [(ex_booking 6 (Date 2024 5 1) ''pending'')
                       \<lparr>LearnerTestBooking.booking_date := 30, LearnerTestBooking.registered_on := 30\<rparr>]\<rparr>)
             (Date 2024 5 1) = Inr ps
        \<and> row \<in> set ps
        \<and> update_test_result
             (ex_db_booked\<lparr>learner_test_bookings_booking_id_seq := 6,
                learner_test_bookings := learner_test_bookings ex_db_booked
                  @ [(ex_booking 6 (Date 2024 5 1) ''pending'')
                       \<lparr>LearnerTestBooking.booking_date := 30, LearnerTestBooking.registered_on := 30\<rparr>]\<rparr>)
             (LearnerTestBooking.booking_id row) \<lparr>ResultUpdateSchema.result = Passed\<rparr> = (Inr m, d2)
        \<and> get_completed_learners d2 (Date 2024 5 1) = Inr cs2
        \<and> row\<lparr>LearnerTestBooking.result := ''passed''\<rparr> \<in> set cs2)"
proof -
  let ?d1 = "ex_db_booked\<lparr>learner_test_bookings_booking_id_seq := 6,
            learner_test_bookings := learner_test_bookings ex_db_booked
              @ [(ex_booking 6 (Date 2024 5 1) ''pending'')
                   \<lparr>LearnerTestBooking.booking_date := 30, LearnerTestBooking.registered_on := 30\<rparr>]\<rparr>"
  have unset: "''result'' \<notin> fields_set ex_booking_req"
    by (simp add: ex_booking_req_def)
  have ok: "create_test_booking 30 ex_db_booked ex_booking_req = (Inr ex_booking_req, ?d1)"
    by (simp add: create_test_booking_def insert_booking_def exclude_unset_def Let_def
        ex_booking_req_def ex_db_booked_def ex_db_def ex_booking_def)
  have day: "LearnerTestBookingSchema.test_date ex_booking_req = Date 2024 5 1"
    by (simp add: ex_booking_req_def)
  show ?thesis
    using unset ok pending_booking_moves_to_completed [OF unset ok]
    by (simp only: day) blast
qed

subsection \<open>Results by date\<close>




text \<open>
  The two handlers that write the \<open>result\<close> column keep it within the four literals.
\<close>

lemma result_str_valid: "result_str r \<in> {''pending'', ''passed'', ''failed'', ''absent''}"
  by (cases r) simp_all

lemma set_update_first: "set (update_first P f xs) \<subseteq> set xs \<union> f ` set xs"
  by (induction xs) auto

lemma create_test_booking_results_valid:
  assumes "\<forall>b \<in> set (learner_test_bookings d).
             LearnerTestBooking.result b \<in> {''pending'', ''passed'', ''failed'', ''absent''}"
  shows "\<forall>b \<in> set (learner_test_bookings (snd (create_test_booking t d booking))).
             LearnerTestBooking.result b \<in> {''pending'', ''passed'', ''failed'', ''absent''}"
proof (cases "exclude_unset booking ''result'' (LearnerTestBookingSchema.result booking)")
  case None
  with assms show ?thesis
    by (auto simp: create_test_booking_def insert_booking_def Let_def split: option.splits)
next
  case (Some r)
  with assms result_str_valid[of r] show ?thesis
    by (auto simp: create_test_booking_def insert_booking_def Let_def split: option.splits)
qed

lemma update_test_result_results_valid:
  assumes "\<forall>b \<in> set (learner_test_bookings d).
             LearnerTestBooking.result b \<in> {''pending'', ''passed'', ''failed'', ''absent''}"
  shows "\<forall>b \<in> set (learner_test_bookings (snd (update_test_result d bid upd))).
             LearnerTestBooking.result b \<in> {''pending'', ''passed'', ''failed'', ''absent''}"
proof (cases "find (\<lambda>b. LearnerTestBooking.booking_id b = bid) (learner_test_bookings d)")
  case None
  with assms show ?thesis by (simp add: update_test_result_def)
next
  case (Some b0)
  let ?f = "\<lambda>b. b\<lparr>LearnerTestBooking.result := result_str (ResultUpdateSchema.result upd)\<rparr>"
  have rows: "learner_test_bookings (snd (update_test_result d bid upd))
                = update_first (\<lambda>b. LearnerTestBooking.booking_id b = bid) ?f (learner_test_bookings d)"
    using Some by (simp add: update_test_result_def)
  show ?thesis
  proof
    fix b assume "b \<in> set (learner_test_bookings (snd (update_test_result d bid upd)))"
    then have "b \<in> set (learner_test_bookings d) \<or> b \<in> ?f ` set (learner_test_bookings d)"
      unfolding rows using set_update_first[of "\<lambda>b. LearnerTestBooking.booking_id b = bid" ?f
          "learner_test_bookings d"] by blast
    then show "LearnerTestBooking.result b \<in> {''pending'', ''passed'', ''failed'', ''absent''}"
      using assms result_str_valid[of "ResultUpdateSchema.result upd"] by auto
  qed
qed



subsection \<open>Queries with an empty result\<close>

text \<open>
  C7. \<open>get_bookings_by_learner\<close> for a learner id that no stored booking carries fails with 404
  "No bookings found for this learner", and \<open>get_security_answers_by_user\<close> for a user id that no
  stored answer carries fails with 404 "Answers not found"; whether a learner profile or a user
  with that id exists plays no part. (When a row matches, the matching rows are returned.)
\<close>

theorem empty_children_not_found:
  "((\<forall>b \<in> set (learner_test_bookings d). LearnerTestBooking.learner_id b \<noteq> lid) \<longrightarrow>
      get_bookings_by_learner d lid = Inl (HTTPException 404 ''No bookings found for this learner''))
   \<and> ((\<forall>a \<in> set (user_security_answers d). UserSecurityAnswer.user_id a \<noteq> uid) \<longrightarrow>
      get_security_answers_by_user d uid = Inl (HTTPException 404 ''Answers not found''))
   \<and> ((\<exists>b \<in> set (learner_test_bookings d). LearnerTestBooking.learner_id b = lid) \<longrightarrow>
      get_bookings_by_learner d lid
        = Inr (filter (\<lambda>b. LearnerTestBooking.learner_id b = lid) (learner_test_bookings d)))
   \<and> ((\<exists>a \<in> set (user_security_answers d). UserSecurityAnswer.user_id a = uid) \<longrightarrow>
      get_security_answers_by_user d uid
        = Inr (filter (\<lambda>a. UserSecurityAnswer.user_id a = uid) (user_security_answers d)))
   \<and> get_bookings_by_learner (d\<lparr>learner_profiles := lps\<rparr>) lid = get_bookings_by_learner d lid
   \<and> get_security_answers_by_user (d\<lparr>users := us\<rparr>) uid = get_security_answers_by_user d uid"
  by (auto simp: get_bookings_by_learner_def get_security_answers_by_user_def Let_def
      filter_empty_conv)

theorem empty_children_not_found_witness:
  "(\<exists>p \<in> set (learner_profiles ex_db). LearnerProfile.user_id p = 2)
   \<and> get_bookings_by_learner ex_db 2 = Inl (HTTPException 404 ''No bookings found for this learner'')
   \<and> get_bookings_by_learner ex_db 77 = Inl (HTTPException 404 ''No bookings found for this learner'')
   \<and> (\<exists>u \<in> set (users ex_db). User.id' u = 1)
   \<and> get_security_answers_by_user ex_db 1 = Inl (HTTPException 404 ''Answers not found'')
   \<and> get_security_answers_by_user ex_db_answered 1 = Inr [ex_answer]
   \<and> get_bookings_by_learner ex_db_booked 2 = Inr (learner_test_bookings ex_db_booked)"
proof -
  have none: "\<forall>b \<in> set (learner_test_bookings ex_db). LearnerTestBooking.learner_id b \<noteq> 2"
    "\<forall>b \<in> set (learner_test_bookings ex_db). LearnerTestBooking.learner_id b \<noteq> 77"
    "\<forall>a \<in> set (user_security_answers ex_db). UserSecurityAnswer.user_id a \<noteq> 1"
    by (simp_all add: ex_db_def)
  have some: "\<exists>a \<in> set (user_security_answers ex_db_answered). UserSecurityAnswer.user_id a = 1"
    "filter (\<lambda>a. UserSecurityAnswer.user_id a = 1) (user_security_answers ex_db_answered) = [ex_answer]"
    by (simp_all add: ex_db_answered_def ex_answer_def)
  have ex: "\<exists>p \<in> set (learner_profiles ex_db). LearnerProfile.user_id p = 2"
    "\<exists>u \<in> set (users ex_db). User.id' u = 1"
    by (simp_all add: ex_db_def ex_alice_def)
  have booked: "\<exists>b \<in> set (learner_test_bookings ex_db_booked). LearnerTestBooking.learner_id b = 2"
    "filter (\<lambda>b. LearnerTestBooking.learner_id b = 2) (learner_test_bookings ex_db_booked)
       = learner_test_bookings ex_db_booked"
    by (simp_all add: ex_db_booked_def ex_booking_def)
  show ?thesis
    using none some ex booked
      empty_children_not_found [of ex_db 2 1 "[]" "[]"]
      empty_children_not_found [of ex_db 77 1 "[]" "[]"]
      empty_children_not_found [of ex_db_answered 2 1 "[]" "[]"]
      empty_children_not_found [of ex_db_booked 2 1 "[]" "[]"]
    by simp
qed

text \<open>
  C10. For a date that no stored booking has as its test date, the pending and the completed
  query both succeed with the empty list, whereas \<open>get_bookings_by_learner\<close> with no matching
  booking fails with 404. The two date queries never fail at all.
\<close>

theorem date_queries_empty_not_error:
  "((\<forall>b \<in> set (learner_test_bookings d). LearnerTestBooking.test_date b \<noteq> day) \<longrightarrow>
       get_pending_learners d day = Inr [] \<and> get_completed_learners d day = Inr [])
   \<and> (\<forall>e. get_pending_learners d day \<noteq> Inl e \<and> get_completed_learners d day \<noteq> Inl e)
   \<and> ((\<forall>b \<in> set (learner_test_bookings d). LearnerTestBooking.learner_id b \<noteq> lid) \<longrightarrow>
       get_bookings_by_learner d lid = Inl (HTTPException 404 ''No bookings found for this learner''))"
  by (auto simp: get_pending_learners_def get_completed_learners_def get_bookings_by_learner_def
      Let_def filter_empty_conv)

theorem date_queries_empty_not_error_witness:
  "get_pending_learners ex_db_booked (Date 2031 1 1) = Inr []
   \<and> get_completed_learners ex_db_booked (Date 2031 1 1) = Inr []
   \<and> get_bookings_by_learner ex_db_booked 77 = Inl (HTTPException 404 ''No bookings found for this learner'')"
proof -
  have "\<forall>b \<in> set (learner_test_bookings ex_db_booked). LearnerTestBooking.test_date b \<noteq> Date 2031 1 1"
    "\<forall>b \<in> set (learner_test_bookings ex_db_booked). LearnerTestBooking.learner_id b \<noteq> 77"
    by (simp_all add: ex_db_booked_def ex_booking_def)
  then show ?thesis
    using date_queries_empty_not_error [of ex_db_booked "Date 2031 1 1" 77] by simp
qed

subsection \<open>What creating a booking returns\<close>

text \<open>
  C8. The claim is that a successful \<open>create_test_booking\<close> returns the created booking record
  with its system-assigned id. Evaluated on a request that leaves the booking id out, the
  handler stores a row with the id 6 drawn from the sequence and the insertion-time clock
  value 30 in both timestamp columns, and returns the request object itself, whose booking id
  is \<open>None\<close> and whose timestamps are the schema defaults. (\<open>create_user\<close> and \<open>create_station\<close>
  refresh the new row and return it.)
\<close>

theorem create_test_booking_returns_request_not_row:
  "\<exists>d1 row.
      create_test_booking 30 ex_db_booked ex_booking_req = (Inr ex_booking_req, d1)
    \<and> learner_test_bookings d1 = learner_test_bookings ex_db_booked @ [row]
    \<and> LearnerTestBooking.booking_id row = 6
    \<and> LearnerTestBookingSchema.booking_id ex_booking_req = None
    \<and> LearnerTestBooking.booking_date row = 30
    \<and> LearnerTestBookingSchema.booking_date ex_booking_req = Some 3"
proof -
  let ?row = "(ex_booking 6 (Date 2024 5 1) ''pending'')
                \<lparr>LearnerTestBooking.booking_date := 30, LearnerTestBooking.registered_on := 30\<rparr>"
  let ?d1 = "ex_db_booked\<lparr>learner_test_bookings_booking_id_seq := 6,
               learner_test_bookings := learner_test_bookings ex_db_booked @ [?row]\<rparr>"
  have "create_test_booking 30 ex_db_booked ex_booking_req = (Inr ex_booking_req, ?d1)"
    by (simp add: create_test_booking_def insert_booking_def exclude_unset_def Let_def
        ex_booking_req_def ex_db_booked_def ex_db_def ex_booking_def)
  moreover have "learner_test_bookings ?d1 = learner_test_bookings ex_db_booked @ [?row]"
    by simp
  moreover have "LearnerTestBooking.booking_id ?row = 6" "LearnerTestBooking.booking_date ?row = 30"
    by (simp_all add: ex_booking_def)
  moreover have "LearnerTestBookingSchema.booking_id ex_booking_req = None"
    "LearnerTestBookingSchema.booking_date ex_booking_req = Some 3"
    by (simp_all add: ex_booking_req_def)
  ultimately show ?thesis by blast
qed

subsection \<open>Seeding the question catalog\<close>

lemma insert_question_cases:
  "insert_question d q =
     (if \<exists>r \<in> set (security_questions d). SecurityQuestion.id' r = security_questions_id_seq d + 1
      then (Inl IntegrityError, d\<lparr>security_questions_id_seq := security_questions_id_seq d + 1\<rparr>)
      else (Inr (), d\<lparr>security_questions_id_seq := security_questions_id_seq d + 1,
                       security_questions := security_questions d @
                         [\<lparr>SecurityQuestion.id' = security_questions_id_seq d + 1, question = q\<rparr>]\<rparr>))"
  by (simp add: insert_question_def Let_def)

lemma seed_questions_appends:
  "seed_questions d qs = (Inr u, d') \<Longrightarrow> distinct qs \<Longrightarrow>
     \<exists>new. security_questions d' = security_questions d @ new
       \<and> map question new = filter (\<lambda>q. q \<notin> question ` set (security_questions d)) qs"
proof (induction qs arbitrary: d)
  case Nil
  then show ?case by simp
next
  case (Cons q qs)
  show ?case
  proof (cases "\<exists>r \<in> set (security_questions d). question r = q")
    case True
    then have "seed_questions d qs = (Inr u, d')" using Cons.prems(1) by simp
    from Cons.IH[OF this] Cons.prems(2) True show ?thesis by (auto simp: image_iff)
  next
    case False
    let ?row = "\<lparr>SecurityQuestion.id' = security_questions_id_seq d + 1, question = q\<rparr>"
    let ?d1 = "d\<lparr>security_questions_id_seq := security_questions_id_seq d + 1,
                  security_questions := security_questions d @ [?row]\<rparr>"
    from Cons.prems(1) False have step: "seed_questions ?d1 qs = (Inr u, d')"
      by (auto simp: insert_question_cases split: if_splits)
    from Cons.IH[OF step] Cons.prems(2) obtain new where
      new: "security_questions d' = security_questions ?d1 @ new"
           "map question new = filter (\<lambda>x. x \<notin> question ` set (security_questions ?d1)) qs"
      by auto
    have same: "filter (\<lambda>x. x \<notin> question ` set (security_questions ?d1)) qs
                  = filter (\<lambda>x. x \<notin> question ` set (security_questions d)) qs"
      using Cons.prems(2) by (intro filter_cong) auto
    have "security_questions d' = security_questions d @ (?row # new)"
      using new(1) by simp
    moreover have "map question (?row # new)
                     = filter (\<lambda>x. x \<notin> question ` set (security_questions d)) (q # qs)"
      using False new(2) same by (auto simp: image_iff)
    ultimately show ?thesis by blast
  qed
qed

lemma seed_questions_present:
  "\<forall>q \<in> set qs. \<exists>r \<in> set (security_questions d). question r = q \<Longrightarrow>
     seed_questions d qs = (Inr (), d)"
  by (induction qs) auto

lemma seed_questions_total:
  "\<forall>r \<in> set (security_questions d). SecurityQuestion.id' r \<le> security_questions_id_seq d \<Longrightarrow>
     \<exists>d'. seed_questions d qs = (Inr (), d')"
proof (induction qs arbitrary: d)
  case Nil
  then show ?case by simp
next
  case (Cons q qs)
  show ?case
  proof (cases "\<exists>r \<in> set (security_questions d). question r = q")
    case True
    then show ?thesis using Cons.IH[OF Cons.prems] by simp
  next
    case False
    let ?d1 = "d\<lparr>security_questions_id_seq := security_questions_id_seq d + 1,
                  security_questions := security_questions d @
                    [\<lparr>SecurityQuestion.id' = security_questions_id_seq d + 1, question = q\<rparr>]\<rparr>"
    have fresh: "\<not> (\<exists>r \<in> set (security_questions d).
                     SecurityQuestion.id' r = security_questions_id_seq d + 1)"
      using Cons.prems by fastforce
    have "\<forall>r \<in> set (security_questions ?d1). SecurityQuestion.id' r \<le> security_questions_id_seq ?d1"
      using Cons.prems by fastforce
    from Cons.IH[OF this] obtain d' where "seed_questions ?d1 qs = (Inr (), d')" by blast
    then show ?thesis using False fresh by (simp add: insert_question_cases)
  qed
qed

lemma count_in_distinct:
  "distinct xs \<Longrightarrow> length (filter (\<lambda>x. x = q) xs) = (if q \<in> set xs then 1 else 0)"
  by (induction xs) auto

lemma length_filter_map: "length (filter (\<lambda>r. f r = q) xs) = length (filter (\<lambda>x. x = q) (map f xs))"
  by (induction xs) auto

lemma distinct_default_qs: "distinct default_qs"
  by (simp add: default_qs_def)

lemma default_questions_eq: "default_questions = default_qs"
  by (simp add: default_questions_def default_qs_def)

lemma seed_questions_station: "station (snd (seed_questions d qs)) = station d"
proof (induction qs arbitrary: d)
  case Nil
  show ?case by simp
next
  case (Cons q qs)
  show ?case
  proof (cases "\<exists>r \<in> set (security_questions d). question r = q")
    case True
    then show ?thesis using Cons.IH[of d] by simp
  next
    case False
    let ?d1 = "d\<lparr>security_questions_id_seq := security_questions_id_seq d + 1,
                  security_questions := security_questions d @
                    [\<lparr>SecurityQuestion.id' = security_questions_id_seq d + 1, question = q\<rparr>]\<rparr>"
    show ?thesis
    proof (cases "\<exists>r \<in> set (security_questions d).
                    SecurityQuestion.id' r = security_questions_id_seq d + 1")
      case True
      with False show ?thesis by (simp add: insert_question_cases)
    next
      case fresh: False
      have "seed_questions d (q # qs) = seed_questions ?d1 qs"
        using False fresh by (simp add: insert_question_cases)
      then show ?thesis using Cons.IH[of ?d1] by simp
    qed
  qed
qed

lemma insert_station_cases:
  "insert_station d x =
     (if \<exists>r \<in> set (station d). Station.station_id r = station_station_id_seq d + 1
      then (Inl IntegrityError, d\<lparr>station_station_id_seq := station_station_id_seq d + 1\<rparr>)
      else (Inr (), d\<lparr>station_station_id_seq := station_station_id_seq d + 1,
                       station := station d @
                         [\<lparr>Station.station_id = station_station_id_seq d + 1,
                           name = fst x, num_grounds = snd x\<rparr>]\<rparr>))"
  by (simp add: insert_station_def Let_def)

lemma seed_stations_questions:
  "security_questions (snd (seed_stations d xs)) = security_questions d
   \<and> security_questions_id_seq (snd (seed_stations d xs)) = security_questions_id_seq d"
proof (induction xs arbitrary: d)
  case Nil
  show ?case by simp
next
  case (Cons x xs)
  show ?case
  proof (cases "\<exists>r \<in> set (station d). Station.name r = fst x")
    case True
    then show ?thesis using Cons.IH[of d] by simp
  next
    case False
    let ?d1 = "d\<lparr>station_station_id_seq := station_station_id_seq d + 1,
                  station := station d @
                    [\<lparr>Station.station_id = station_station_id_seq d + 1,
                      name = fst x, num_grounds = snd x\<rparr>]\<rparr>"
    show ?thesis
    proof (cases "\<exists>r \<in> set (station d). Station.station_id r = station_station_id_seq d + 1")
      case True
      with False show ?thesis by (simp add: insert_station_cases)
    next
      case fresh: False
      have "seed_stations d (x # xs) = seed_stations ?d1 xs"
        using False fresh by (simp add: insert_station_cases)
      then show ?thesis using Cons.IH[of ?d1] by simp
    qed
  qed
qed

lemma seed_stations_names:
  "seed_stations d xs = (Inr u, d') \<Longrightarrow>
     set (station d) \<subseteq> set (station d')
     \<and> (\<forall>x \<in> set xs. \<exists>r \<in> set (station d'). Station.name r = fst x)"
proof (induction xs arbitrary: d)
  case Nil
  then show ?case by simp
next
  case (Cons x xs)
  show ?case
  proof (cases "\<exists>r \<in> set (station d). Station.name r = fst x")
    case True
    then have "seed_stations d xs = (Inr u, d')" using Cons.prems by simp
    from Cons.IH[OF this] True show ?thesis by auto
  next
    case False
    let ?d1 = "d\<lparr>station_station_id_seq := station_station_id_seq d + 1,
                  station := station d @
                    [\<lparr>Station.station_id = station_station_id_seq d + 1,
                      name = fst x, num_grounds = snd x\<rparr>]\<rparr>"
    from Cons.prems False have "seed_stations ?d1 xs = (Inr u, d')"
      by (auto simp: insert_station_cases split: if_splits)
    from Cons.IH[OF this] have sub: "set (station ?d1) \<subseteq> set (station d')"
      and rest: "\<forall>y \<in> set xs. \<exists>r \<in> set (station d'). Station.name r = fst y"
      by blast+
    have "\<lparr>Station.station_id = station_station_id_seq d + 1,
           name = fst x, num_grounds = snd x\<rparr> \<in> set (station d')"
      using sub by simp
    then have "\<exists>r \<in> set (station d'). Station.name r = fst x"
      by (rule bexI[rotated]) simp
    moreover have "set (station d) \<subseteq> set (station d')" using sub by simp
    ultimately show ?thesis using rest by simp
  qed
qed

lemma seed_stations_present:
  "\<forall>x \<in> set xs. \<exists>r \<in> set (station d). Station.name r = fst x \<Longrightarrow>
     seed_stations d xs = (Inr (), d)"
  by (induction xs) auto

text \<open>
  C9. When \<open>insert_default_questions\<close> completes, the catalog is the old catalog followed by new
  rows, one for each canonical question whose text no old row carried, in the order of the
  list: nothing is deleted, nothing is inserted for a text that was present, and the new
  rows have pairwise different texts. Running it again on the result changes nothing, so any
  number of runs gives the catalog of the first. For each canonical text the number of rows
  carrying it afterwards is one if there was none, and otherwise what it was. When it fails,
  the stored catalog is the one from before the call; it completes whenever the stored ids
  came from the sequence. The question loop of \<open>init_database\<close> seeds the catalog in the same
  way, and a second run of the script changes nothing either.
\<close>

theorem insert_default_questions_idempotent:
  "(insert_default_questions d = (Inr (), d') \<longrightarrow>
       (\<exists>new. security_questions d' = security_questions d @ new
          \<and> map question new = filter (\<lambda>q. q \<notin> question ` set (security_questions d)) default_qs
          \<and> distinct (map question new))
     \<and> insert_default_questions d' = (Inr (), d')
     \<and> (\<forall>q \<in> set default_qs.
           length (filter (\<lambda>r. question r = q) (security_questions d'))
             = max 1 (length (filter (\<lambda>r. question r = q) (security_questions d)))))
   \<and> (\<forall>e d''. insert_default_questions d = (Inl e, d'') \<longrightarrow>
         security_questions d'' = security_questions d)
   \<and> ((\<forall>r \<in> set (security_questions d). SecurityQuestion.id' r \<le> security_questions_id_seq d) \<longrightarrow>
         (\<exists>d''. insert_default_questions d = (Inr (), d'')))
   \<and> (init_database d = (Inr (), d') \<longrightarrow>
         (\<exists>new. security_questions d' = security_questions d @ new
            \<and> map question new
                = filter (\<lambda>q. q \<notin> question ` set (security_questions d)) default_questions)
       \<and> init_database d' = (Inr (), d'))
   \<and> (\<forall>e d''. init_database d = (Inl e, d'') \<longrightarrow>
         security_questions d'' = security_questions d)"
proof (intro conjI impI allI)
  assume ok: "insert_default_questions d = (Inr (), d')"
  then have seed: "seed_questions d default_qs = (Inr (), d')"
    by (auto simp: insert_default_questions_def split: prod.splits sum.splits)
  from seed_questions_appends[OF seed distinct_default_qs] obtain new where
    rows: "security_questions d' = security_questions d @ new"
    and texts: "map question new
                  = filter (\<lambda>q. q \<notin> question ` set (security_questions d)) default_qs"
    by blast
  have dist: "distinct (map question new)"
    unfolding texts using distinct_default_qs by (rule distinct_filter)
  show "\<exists>new. security_questions d' = security_questions d @ new
          \<and> map question new = filter (\<lambda>q. q \<notin> question ` set (security_questions d)) default_qs
          \<and> distinct (map question new)"
    using rows texts dist by blast
  have all_in: "\<forall>q \<in> set default_qs. \<exists>r \<in> set (security_questions d'). question r = q"
  proof
    fix q assume q: "q \<in> set default_qs"
    show "\<exists>r \<in> set (security_questions d'). question r = q"
    proof (cases "q \<in> question ` set (security_questions d)")
      case True
      then show ?thesis by (auto simp: rows)
    next
      case False
      with q have "q \<in> set (map question new)" unfolding texts by simp
      then show ?thesis by (auto simp: rows)
    qed
  qed
  from seed_questions_present[OF all_in]
  show "insert_default_questions d' = (Inr (), d')"
    by (simp add: insert_default_questions_def)
  show "\<forall>q \<in> set default_qs.
           length (filter (\<lambda>r. question r = q) (security_questions d'))
             = max 1 (length (filter (\<lambda>r. question r = q) (security_questions d)))"
  proof
    fix q assume q: "q \<in> set default_qs"
    have cnt_new: "length (filter (\<lambda>r. question r = q) new)
                     = (if q \<in> question ` set (security_questions d) then 0 else 1)"
    proof -
      have "length (filter (\<lambda>r. question r = q) new)
              = (if q \<in> set (map question new) then 1 else 0)"
        unfolding length_filter_map[of question q new] by (rule count_in_distinct[OF dist])
      moreover have "q \<in> set (map question new) \<longleftrightarrow> q \<notin> question ` set (security_questions d)"
        unfolding texts using q by simp
      ultimately show ?thesis by simp
    qed
    show "length (filter (\<lambda>r. question r = q) (security_questions d'))
             = max 1 (length (filter (\<lambda>r. question r = q) (security_questions d)))"
    proof (cases "q \<in> question ` set (security_questions d)")
      case True
      then have "filter (\<lambda>r. question r = q) (security_questions d) \<noteq> []"
        by (auto simp: filter_empty_conv)
      then have "1 \<le> length (filter (\<lambda>r. question r = q) (security_questions d))"
        by (cases "filter (\<lambda>r. question r = q) (security_questions d)") auto
      with True cnt_new show ?thesis by (simp add: rows)
    next
      case False
      then have "filter (\<lambda>r. question r = q) (security_questions d) = []"
        by (auto simp: filter_empty_conv)
      with False cnt_new show ?thesis by (simp add: rows)
    qed
  qed
next
  fix e d''
  assume "insert_default_questions d = (Inl e, d'')"
  then show "security_questions d'' = security_questions d"
    by (auto simp: insert_default_questions_def split: prod.splits sum.splits)
next
  assume "\<forall>r \<in> set (security_questions d). SecurityQuestion.id' r \<le> security_questions_id_seq d"
  from seed_questions_total[OF this, of default_qs]
  show "\<exists>d''. insert_default_questions d = (Inr (), d'')"
    by (auto simp: insert_default_questions_def)
next
  assume ok: "init_database d = (Inr (), d')"
  obtain r1 d1 where s1: "seed_stations d default_stations = (r1, d1)"
    by (cases "seed_stations d default_stations")
  obtain r2 d2 where s2: "seed_questions d1 default_questions = (r2, d2)"
    by (cases "seed_questions d1 default_questions")
  from ok s1 have r1: "r1 = Inr ()"
    by (cases r1) (simp_all add: init_database_def)
  from ok s1 s2 r1 have r2: "r2 = Inr ()" and d2: "d2 = d'"
    by (cases r2; simp add: init_database_def)+
  have q1: "security_questions d1 = security_questions d"
    using seed_stations_questions[of d default_stations] s1 by simp
  have dq: "distinct default_questions"
    unfolding default_questions_eq by (rule distinct_default_qs)
  from seed_questions_appends[OF s2[unfolded r2 d2] dq]
  show "\<exists>new. security_questions d' = security_questions d @ new
            \<and> map question new
                = filter (\<lambda>q. q \<notin> question ` set (security_questions d)) default_questions"
    unfolding q1 .
  then obtain new where rows: "security_questions d' = security_questions d @ new"
    and texts: "map question new
                  = filter (\<lambda>q. q \<notin> question ` set (security_questions d)) default_questions"
    by blast
  have stations: "\<forall>x \<in> set default_stations. \<exists>r \<in> set (station d'). Station.name r = fst x"
  proof -
    have "station d' = station d1"
      using seed_questions_station[of d1 default_questions] s2 d2 by simp
    then show ?thesis using seed_stations_names[OF s1[unfolded r1]] by simp
  qed
  have questions: "\<forall>q \<in> set default_questions. \<exists>r \<in> set (security_questions d'). question r = q"
  proof
    fix q assume q: "q \<in> set default_questions"
    show "\<exists>r \<in> set (security_questions d'). question r = q"
    proof (cases "q \<in> question ` set (security_questions d)")
      case True
      then show ?thesis by (auto simp: rows)
    next
      case False
      with q have "q \<in> set (map question new)" unfolding texts by simp
      then show ?thesis by (auto simp: rows)
    qed
  qed
  show "init_database d' = (Inr (), d')"
    by (simp add: init_database_def seed_stations_present[OF stations]
        seed_questions_present[OF questions])
next
  fix e d''
  assume bad: "init_database d = (Inl e, d'')"
  obtain r1 d1 where s1: "seed_stations d default_stations = (r1, d1)"
    by (cases "seed_stations d default_stations")
  obtain r2 d2 where s2: "seed_questions d1 default_questions = (r2, d2)"
    by (cases "seed_questions d1 default_questions")
  have q1: "security_questions d1 = security_questions d"
    using seed_stations_questions[of d default_stations] s1 by simp
  show "security_questions d'' = security_questions d"
  proof (cases r1)
    case (Inl e1)
    with bad s1 q1 show ?thesis by (auto simp: init_database_def)
  next
    case (Inr u1)
    with bad s1 s2 show ?thesis by (cases r2) (auto simp: init_database_def)
  qed
qed

theorem insert_default_questions_idempotent_witness:
  "insert_default_questions ex_db = (Inr (), ex_db_seeded)
   \<and> map question (security_questions ex_db_seeded)
       = [''What is the name of your first pet?'', ''In what city were you born?'',
          ''What was the model of your first car?'', ''What is your mother's maiden name?'',
          ''What is the name of the street you grew up?'',
          ''What is the name of your primary school?'']
   \<and> insert_default_questions ex_db_seeded = (Inr (), ex_db_seeded)
   \<and> map (\<lambda>q. length (filter (\<lambda>r. question r = q) (security_questions ex_db_seeded))) default_qs
       = [1, 1, 1, 1, 1, 1]
   \<and> map SecurityQuestion.id' (security_questions ex_db) = [1, 2]
   \<and> security_questions_id_seq ex_db = 2
   \<and> init_database ex_db = (Inr (), ex_db_initialized)
   \<and> security_questions ex_db_initialized = security_questions ex_db_seeded
   \<and> init_database ex_db_initialized = (Inr (), ex_db_initialized)
   \<and> insert_default_questions (ex_db\<lparr>security_questions_id_seq := 0\<rparr>)
       = (Inl IntegrityError, ex_db\<lparr>security_questions_id_seq := 1\<rparr>)
   \<and> security_questions (ex_db\<lparr>security_questions_id_seq := 1\<rparr>)
       = security_questions (ex_db\<lparr>security_questions_id_seq := 0\<rparr>)"
proof -
  have ok: "insert_default_questions ex_db = (Inr (), ex_db_seeded)"
    by (simp add: insert_default_questions_def default_qs_def insert_question_def Let_def
        ex_db_def ex_db_seeded_def)
  have texts: "map question (security_questions ex_db_seeded)
       = [''What is the name of your first pet?'', ''In what city were you born?'',
          ''What was the model of your first car?'', ''What is your mother's maiden name?'',
          ''What is the name of the street you grew up?'',
          ''What is the name of your primary school?'']"
    by (simp add: ex_db_def ex_db_seeded_def)
  have before: "\<forall>q \<in> set default_qs.
      max 1 (length (filter (\<lambda>r. question r = q) (security_questions ex_db))) = 1"
    by (simp add: default_qs_def ex_db_def)
  have ids: "\<forall>r \<in> set (security_questions ex_db).
      SecurityQuestion.id' r \<le> security_questions_id_seq ex_db"
    by (simp add: ex_db_def)
  have st: "seed_stations ex_db default_stations
              = (Inr (), ex_db\<lparr>station_station_id_seq := 5, station := station ex_db_initialized\<rparr>)"
    by (simp add: default_stations_def insert_station_def Let_def
        ex_db_def ex_db_seeded_def ex_db_initialized_def)
  have qs: "seed_questions (ex_db\<lparr>station_station_id_seq := 5, station := station ex_db_initialized\<rparr>)
              default_questions = (Inr (), ex_db_initialized)"
    by (simp add: default_questions_def insert_question_def Let_def
        ex_db_def ex_db_seeded_def ex_db_initialized_def)
  have init: "init_database ex_db = (Inr (), ex_db_initialized)"
    by (simp add: init_database_def st qs)
  have same: "security_questions ex_db_initialized = security_questions ex_db_seeded"
    by (simp add: ex_db_initialized_def)
  have idem: "insert_default_questions ex_db_seeded = (Inr (), ex_db_seeded)"
    and cnt: "\<forall>q \<in> set default_qs.
           length (filter (\<lambda>r. question r = q) (security_questions ex_db_seeded))
             = max 1 (length (filter (\<lambda>r. question r = q) (security_questions ex_db)))"
    using ok insert_default_questions_idempotent [of ex_db ex_db_seeded] by blast+
  have idem2: "init_database ex_db_initialized = (Inr (), ex_db_initialized)"
    using init insert_default_questions_idempotent [of ex_db ex_db_initialized] by blast
  have one: "\<forall>q \<in> set default_qs.
         length (filter (\<lambda>r. question r = q) (security_questions ex_db_seeded)) = 1"
    using cnt before by simp
  have "map (\<lambda>q. length (filter (\<lambda>r. question r = q) (security_questions ex_db_seeded))) default_qs
          = map (\<lambda>q. 1) default_qs"
    using one by (intro map_cong) simp_all
  then have ones: "map (\<lambda>q. length (filter (\<lambda>r. question r = q) (security_questions ex_db_seeded)))
                     default_qs = [1, 1, 1, 1, 1, 1]"
    by (simp add: default_qs_def)
  have stored: "map SecurityQuestion.id' (security_questions ex_db) = [1, 2]"
    "security_questions_id_seq ex_db = 2"
    by (simp_all add: ex_db_def)
  have bad: "insert_default_questions (ex_db\<lparr>security_questions_id_seq := 0\<rparr>)
       = (Inl IntegrityError, ex_db\<lparr>security_questions_id_seq := 1\<rparr>)"
    by (simp add: insert_default_questions_def default_qs_def insert_question_def Let_def ex_db_def)
  have kept: "security_questions (ex_db\<lparr>security_questions_id_seq := 1\<rparr>)
       = security_questions (ex_db\<lparr>security_questions_id_seq := 0\<rparr>)"
    using bad insert_default_questions_idempotent
            [of "ex_db\<lparr>security_questions_id_seq := 0\<rparr>" ex_db_seeded]
    by blast
  show ?thesis
    by (intro conjI) (fact ok texts idem ones stored init same idem2 bad kept)+
qed

end
